theory Spec2Isabelle
  imports Main
begin

section \<open>Errors\<close>

text \<open>
  Go errors are values.  \<open>ErrNoRows\<close> is the sentinel \<^verbatim>\<open>sql.ErrNoRows\<close>, compared by
  identity in the source (\<^verbatim>\<open>switch err { case sql.ErrNoRows: ... }\<close>); \<open>DriverErr\<close> is any
  other error produced by the driver or by \<^verbatim>\<open>database/sql\<close>; \<open>Wrap e msg\<close> is
  \<^verbatim>\<open>errors.Wrap(e, msg)\<close> of \<^verbatim>\<open>github.com/pkg/errors\<close>, a new error value that keeps
  \<open>e\<close> as its cause; \<open>RecordNotFoundError\<close> is what
  \<^verbatim>\<open>service.NewRecordNotFoundError(kind, key)\<close> builds.
\<close>

datatype err =
    ErrNoRows
  | DriverErr string
  | Wrap err string
  | RecordNotFoundError string string

text \<open>\<^verbatim>\<open>errors.Cause\<close>: the innermost error under every wrapper.\<close>

fun Cause :: "err \<Rightarrow> err" where
  "Cause (Wrap e msg) = Cause e"
| "Cause ErrNoRows = ErrNoRows"
| "Cause (DriverErr m) = DriverErr m"
| "Cause (RecordNotFoundError k v) = RecordNotFoundError k v"

section \<open>The sqlx layer underneath\<close>

text \<open>
  \<^verbatim>\<open>*sqlx.DB\<close> and \<^verbatim>\<open>*sqlx.Tx\<close> are external.  They are a parameter of the model: a record
  of operations over a store state \<open>'s\<close>.  \<open>conn\<close> says on which handle a statement runs:
  the shared pool (\<^verbatim>\<open>ds.DB\<close>) or the transaction with a given number (\<^verbatim>\<open>q.Tx\<close>).
  Every statement returns its value together with an optional error and the new store.
\<close>

datatype conn = Pool | InTx nat

record ('s, 'q, 'a, 'r, 'd) sqlx =
  Rebind :: "'q \<Rightarrow> 'q"
  Beginx :: "'s \<Rightarrow> (err + nat) \<times> 's"
  Commit :: "nat \<Rightarrow> 's \<Rightarrow> err option \<times> 's"
  Rollback :: "nat \<Rightarrow> 's \<Rightarrow> err option \<times> 's"
  ExecContext :: "conn \<Rightarrow> 'q \<Rightarrow> 'a list \<Rightarrow> 's \<Rightarrow> ('r \<times> err option) \<times> 's"
  GetContext :: "conn \<Rightarrow> 'q \<Rightarrow> 'a list \<Rightarrow> 's \<Rightarrow> ('d \<times> err option) \<times> 's"
  NamedExecContext :: "conn \<Rightarrow> 'q \<Rightarrow> 'a \<Rightarrow> 's \<Rightarrow> ('r \<times> err option) \<times> 's"
  QueryContext :: "conn \<Rightarrow> 'q \<Rightarrow> 'a list \<Rightarrow> 's \<Rightarrow> ('d \<times> err option) \<times> 's"
  SelectContext :: "conn \<Rightarrow> 'q \<Rightarrow> 'a list \<Rightarrow> 's \<Rightarrow> ('d \<times> err option) \<times> 's"

section \<open>Contexts and the two handle variants\<close>

text \<open>
  \<^verbatim>\<open>type SqlTx struct { Tx *sqlx.Tx }\<close>.  A context is reduced to the one value the code
  reads from it, the one stored under \<^verbatim>\<open>txKey{}\<close>.
\<close>

datatype SqlTx = SqlTx (Tx: nat)

record ctx =
  txKey :: "SqlTx option"

text \<open>\<^verbatim>\<open>context.WithValue(ctx, txKey{}, &SqlTx{Tx: tx})\<close>\<close>

definition WithValue_txKey :: "ctx \<Rightarrow> SqlTx \<Rightarrow> ctx" where
  "WithValue_txKey c t = c\<lparr>txKey := Some t\<rparr>"

text \<open>
  The shape every classifying operation of \<open>SqlTx\<close> and \<open>SQL\<close> repeats:
  \<^verbatim>\<open>if err != nil { switch err { case sql.ErrNoRows: return v, err;
     default: return v, errors.Wrap(err, msg) } }; return v, err\<close>
  The operations below are exec, get, named-exec, query and select.  The repository holds
  two versions of the file; the one followed here rebinds the statement in every
  operation and says \<^verbatim>\<open>sql\<close> in its messages, the other does not rebind and says
  \<^verbatim>\<open>mysql\<close>.  \<^verbatim>\<open>WithinTransaction\<close> is the same text in both.
\<close>

definition classify :: "string \<Rightarrow> ('v \<times> err option) \<times> 's \<Rightarrow> ('v \<times> err option) \<times> 's" where
  "classify msg res =
     (case res of ((v, e), s) \<Rightarrow>
        (case e of
           Some x \<Rightarrow> (if x = ErrNoRows then ((v, Some x), s) else ((v, Some (Wrap x msg)), s))
         | None \<Rightarrow> ((v, None), s)))"

subsection \<open>Methods of \<open>SqlTx\<close>\<close>

definition SqlTx_ExecContext ::
  "('s, 'q, 'a, 'r, 'd) sqlx \<Rightarrow> SqlTx \<Rightarrow> 'q \<Rightarrow> 'a list \<Rightarrow> 's \<Rightarrow> ('r \<times> err option) \<times> 's" where
  "SqlTx_ExecContext db q query args s =
     classify ''sql error'' (ExecContext db (InTx (Tx q)) (Rebind db query) args s)"

definition SqlTx_GetContext ::
  "('s, 'q, 'a, 'r, 'd) sqlx \<Rightarrow> SqlTx \<Rightarrow> 'q \<Rightarrow> 'a list \<Rightarrow> 's \<Rightarrow> ('d \<times> err option) \<times> 's" where
  "SqlTx_GetContext db q query args s =
     classify ''sql error'' (GetContext db (InTx (Tx q)) (Rebind db query) args s)"

definition SqlTx_NamedExecContext ::
  "('s, 'q, 'a, 'r, 'd) sqlx \<Rightarrow> SqlTx \<Rightarrow> 'q \<Rightarrow> 'a \<Rightarrow> 's \<Rightarrow> ('r \<times> err option) \<times> 's" where
  "SqlTx_NamedExecContext db q query arg s =
     classify ''sql error'' (NamedExecContext db (InTx (Tx q)) (Rebind db query) arg s)"

definition SqlTx_QueryContext ::
  "('s, 'q, 'a, 'r, 'd) sqlx \<Rightarrow> SqlTx \<Rightarrow> 'q \<Rightarrow> 'a list \<Rightarrow> 's \<Rightarrow> ('d \<times> err option) \<times> 's" where
  "SqlTx_QueryContext db q query args s =
     classify ''sql error'' (QueryContext db (InTx (Tx q)) (Rebind db query) args s)"

definition SqlTx_SelectContext ::
  "('s, 'q, 'a, 'r, 'd) sqlx \<Rightarrow> SqlTx \<Rightarrow> 'q \<Rightarrow> 'a list \<Rightarrow> 's \<Rightarrow> ('d \<times> err option) \<times> 's" where
  "SqlTx_SelectContext db q query args s =
     classify ''sql error'' (SelectContext db (InTx (Tx q)) (Rebind db query) args s)"

subsection \<open>Methods of \<open>SQL\<close>\<close>

text \<open>
  \<^verbatim>\<open>getQueryableFromContext\<close> returns the \<^verbatim>\<open>*SqlTx\<close> stored in the context, whose methods
  are the ones above, or else \<^verbatim>\<open>ds.DB\<close>, whose methods are the raw sqlx ones.
\<close>

datatype SqlQueryable = QueryableTx SqlTx | QueryableDB

definition getQueryableFromContext :: "ctx \<Rightarrow> SqlQueryable" where
  "getQueryableFromContext c = (case txKey c of Some t \<Rightarrow> QueryableTx t | None \<Rightarrow> QueryableDB)"

definition SQL_ExecContext ::
  "('s, 'q, 'a, 'r, 'd) sqlx \<Rightarrow> ctx \<Rightarrow> 'q \<Rightarrow> 'a list \<Rightarrow> 's \<Rightarrow> ('r \<times> err option) \<times> 's" where
  "SQL_ExecContext db c query args s =
     (let query' = Rebind db query in
      classify ''Error when calling sql ExecContext''
        (case getQueryableFromContext c of
           QueryableTx t \<Rightarrow> SqlTx_ExecContext db t query' args s
         | QueryableDB \<Rightarrow> ExecContext db Pool query' args s))"

definition SQL_GetContext ::
  "('s, 'q, 'a, 'r, 'd) sqlx \<Rightarrow> ctx \<Rightarrow> 'q \<Rightarrow> 'a list \<Rightarrow> 's \<Rightarrow> ('d \<times> err option) \<times> 's" where
  "SQL_GetContext db c query args s =
     (let query' = Rebind db query in
      classify ''Error when calling sql GetContext''
        (case getQueryableFromContext c of
           QueryableTx t \<Rightarrow> SqlTx_GetContext db t query' args s
         | QueryableDB \<Rightarrow> GetContext db Pool query' args s))"

definition SQL_NamedExecContext ::
  "('s, 'q, 'a, 'r, 'd) sqlx \<Rightarrow> ctx \<Rightarrow> 'q \<Rightarrow> 'a \<Rightarrow> 's \<Rightarrow> ('r \<times> err option) \<times> 's" where
  "SQL_NamedExecContext db c query arg s =
     (let query' = Rebind db query in
      classify ''Error when calling sql NamedExecContext''
        (case getQueryableFromContext c of
           QueryableTx t \<Rightarrow> SqlTx_NamedExecContext db t query' arg s
         | QueryableDB \<Rightarrow> NamedExecContext db Pool query' arg s))"

definition SQL_QueryContext ::
  "('s, 'q, 'a, 'r, 'd) sqlx \<Rightarrow> ctx \<Rightarrow> 'q \<Rightarrow> 'a list \<Rightarrow> 's \<Rightarrow> ('d \<times> err option) \<times> 's" where
  "SQL_QueryContext db c query args s =
     (let query' = Rebind db query in
      classify ''Error when calling sql QueryContext''
        (case getQueryableFromContext c of
           QueryableTx t \<Rightarrow> SqlTx_QueryContext db t query' args s
         | QueryableDB \<Rightarrow> QueryContext db Pool query' args s))"

definition SQL_SelectContext ::
  "('s, 'q, 'a, 'r, 'd) sqlx \<Rightarrow> ctx \<Rightarrow> 'q \<Rightarrow> 'a list \<Rightarrow> 's \<Rightarrow> ('d \<times> err option) \<times> 's" where
  "SQL_SelectContext db c query args s =
     (let query' = Rebind db query in
      classify ''Error when calling sql SelectContext''
        (case getQueryableFromContext c of
           QueryableTx t \<Rightarrow> SqlTx_SelectContext db t query' args s
         | QueryableDB \<Rightarrow> SelectContext db Pool query' args s))"

section \<open>WithinTransaction\<close>

text \<open>
  What the transaction manager does to the outside is recorded in a trace: every call of
  \<^verbatim>\<open>Beginx\<close>, \<^verbatim>\<open>Commit\<close> and \<^verbatim>\<open>Rollback\<close> with its result, and every line given to the
  logger.  The world is the trace together with the store of the sqlx layer.
\<close>

datatype event =
    EvBegin "err + nat"
  | EvCommit nat "err option"
  | EvRollback nat "err option"
  | EvLog err string

record 's world =
  trace :: "event list"
  store :: "'s"

text \<open>
  A Go call either returns its error value or panics.  \<open>Panicked v\<close> carries what
  \<^verbatim>\<open>recover()\<close> gives for the panic: \<open>Some pv\<close> for a value \<open>pv\<close> other than nil, and
  \<open>None\<close> for \<^verbatim>\<open>panic(nil)\<close>, for which \<^verbatim>\<open>recover()\<close> gives nil before Go 1.21 (and under
  \<^verbatim>\<open>GODEBUG=panicnil=1\<close>).  From Go 1.21 on \<^verbatim>\<open>panic(nil)\<close> panics with a
  \<^verbatim>\<open>*runtime.PanicNilError\<close>, a value other than nil, which is a \<open>Some\<close> here.
\<close>

datatype 'p outcome = Returned "err option" | Panicked "'p option"

type_synonym ('s, 'p) txFunc = "ctx \<Rightarrow> 's world \<Rightarrow> 'p outcome \<times> 's world"

definition DB_Beginx :: "('s, 'q, 'a, 'r, 'd) sqlx \<Rightarrow> 's world \<Rightarrow> (err + nat) \<times> 's world" where
  "DB_Beginx db w =
     (case Beginx db (store w) of
        (r, s') \<Rightarrow> (r, w\<lparr>trace := trace w @ [EvBegin r], store := s'\<rparr>))"

definition Tx_Commit :: "('s, 'q, 'a, 'r, 'd) sqlx \<Rightarrow> nat \<Rightarrow> 's world \<Rightarrow> err option \<times> 's world" where
  "Tx_Commit db tx w =
     (case Commit db tx (store w) of
        (r, s') \<Rightarrow> (r, w\<lparr>trace := trace w @ [EvCommit tx r], store := s'\<rparr>))"

definition Tx_Rollback :: "('s, 'q, 'a, 'r, 'd) sqlx \<Rightarrow> nat \<Rightarrow> 's world \<Rightarrow> err option \<times> 's world" where
  "Tx_Rollback db tx w =
     (case Rollback db tx (store w) of
        (r, s') \<Rightarrow> (r, w\<lparr>trace := trace w @ [EvRollback tx r], store := s'\<rparr>))"

text \<open>\<^verbatim>\<open>if err != nil { log.Err(err).Msg(msg) }\<close>\<close>

definition log_if_err :: "err option \<Rightarrow> string \<Rightarrow> 's world \<Rightarrow> 's world" where
  "log_if_err e msg w =
     (case e of Some x \<Rightarrow> w\<lparr>trace := trace w @ [EvLog x msg]\<rparr> | None \<Rightarrow> w)"

text \<open>
  The deferred closure.  Its inputs are the value \<open>p\<close> of \<^verbatim>\<open>recover()\<close> (\<open>None\<close> is
  nil: no panic, or a panic with nil) and the value of the local variable \<^verbatim>\<open>err\<close> when
  it starts; it returns the value it panics with again (\<open>None\<close> when it does not panic)
  and the value it leaves in the local \<^verbatim>\<open>err\<close>.  The test is \<^verbatim>\<open>p != nil\<close>, so a nil
  \<open>p\<close> takes the branches on \<^verbatim>\<open>err\<close> whether or not there was a panic.
\<close>

definition deferred ::
  "('s, 'q, 'a, 'r, 'd) sqlx \<Rightarrow> nat \<Rightarrow> 'p option \<Rightarrow> err option \<Rightarrow> 's world
     \<Rightarrow> ('p option \<times> err option) \<times> 's world" where
  "deferred db tx p err w =
     (case p of
        Some pv \<Rightarrow>
          (case Tx_Rollback db tx w of
             (err', w') \<Rightarrow> ((Some pv, err'), log_if_err err' ''error rolling back sql transaction'' w'))
      | None \<Rightarrow>
          (case err of
             Some _ \<Rightarrow>
               (case Tx_Rollback db tx w of
                  (err', w') \<Rightarrow> ((None, err'), log_if_err err' ''error rolling back sql transaction'' w'))
           | None \<Rightarrow>
               (case Tx_Commit db tx w of
                  (err', w') \<Rightarrow> ((None, err'), log_if_err err' ''error committing sql transaction'' w'))))"

text \<open>
  \<^verbatim>\<open>func (ds SQL) WithinTransaction(ctx, txFunc) error\<close>.  The result parameter has no
  name, so \<^verbatim>\<open>return err\<close> copies the value of the local \<^verbatim>\<open>err\<close> into the result before
  the deferred closure runs, and what the closure then assigns to the local \<^verbatim>\<open>err\<close> does
  not reach the caller.  When \<^verbatim>\<open>txFunc\<close> panics the assignment \<^verbatim>\<open>err = txFunc(...)\<close> never
  happens and the local \<^verbatim>\<open>err\<close> still holds the nil left by \<^verbatim>\<open>Beginx\<close>; \<^verbatim>\<open>recover()\<close>
  ends the panic, so when the closure does not panic again the call returns the zero
  value of its result, nil.
\<close>

definition WithinTransaction ::
  "('s, 'q, 'a, 'r, 'd) sqlx \<Rightarrow> ctx \<Rightarrow> ('s, 'p) txFunc \<Rightarrow> 's world \<Rightarrow> 'p outcome \<times> 's world" where
  "WithinTransaction db c txFunc w =
     (case txKey c of
        Some _ \<Rightarrow> txFunc c w
      | None \<Rightarrow>
          (case DB_Beginx db w of
             (Inl e, w1) \<Rightarrow> (Returned (Some (Wrap e ''Error beginning sql transaction'')), w1)
           | (Inr tx, w1) \<Rightarrow>
               (case txFunc (WithValue_txKey c (SqlTx tx)) w1 of
                  (Panicked p, w2) \<Rightarrow>
                    (case deferred db tx p None w2 of
                       ((Some pv', _), w3) \<Rightarrow> (Panicked (Some pv'), w3)
                     | ((None, _), w3) \<Rightarrow> (Returned None, w3))
                | (Returned err, w2) \<Rightarrow>
                    (case deferred db tx None err w2 of
                       ((Some pv', _), w3) \<Rightarrow> (Panicked (Some pv'), w3)
                     | ((None, _), w3) \<Rightarrow> (Returned err, w3)))))"

text \<open>A chain of \<open>n\<close> further calls of \<open>WithinTransaction\<close> around a unit of work, each
  passing on the context it was given.\<close>

fun nested :: "('s, 'q, 'a, 'r, 'd) sqlx \<Rightarrow> nat \<Rightarrow> ('s, 'p) txFunc \<Rightarrow> ('s, 'p) txFunc" where
  "nested db 0 f = f"
| "nested db (Suc n) f = (\<lambda>c. WithinTransaction db c (nested db n f))"

text \<open>Counting the physical transaction events of a trace.\<close>

fun is_begin :: "event \<Rightarrow> bool" where
  "is_begin (EvBegin (Inr tx)) = True"
| "is_begin _ = False"

fun is_commit :: "event \<Rightarrow> bool" where
  "is_commit (EvCommit tx r) = True"
| "is_commit _ = False"

fun is_rollback :: "event \<Rightarrow> bool" where
  "is_rollback (EvRollback tx r) = True"
| "is_rollback _ = False"

definition begins :: "event list \<Rightarrow> nat" where
  "begins t = length (filter is_begin t)"

definition commits :: "event list \<Rightarrow> nat" where
  "commits t = length (filter is_commit t)"

definition rollbacks :: "event list \<Rightarrow> nat" where
  "rollbacks t = length (filter is_rollback t)"

section \<open>Listing object types\<close>

subsection \<open>Request descriptor\<close>

text \<open>
  Modelled from the spec: \<^verbatim>\<open>middleware.ListParams\<close> and \<^verbatim>\<open>middleware.SortOrder\<close> are
  declared outside the given sources.  The spec gives the request descriptor as
  \<open>{free-text query, sortBy field, sortOrder \<in> {asc, desc}, afterId/afterValue,
  beforeId/beforeValue, limit}\<close>; the field names are the ones \<^verbatim>\<open>List\<close> reads.  A value
  bound to a placeholder (\<^verbatim>\<open>interface{}\<close>) is an integer, a string or nil.
\<close>

datatype sqlval = VNull | VInt int | VStr string

datatype SortOrder = SortOrderAsc | SortOrderDesc

record ListParams =
  Query :: string
  SortBy :: string
  SortOrder :: SortOrder
  AfterId :: string
  AfterValue :: "sqlval option"
  BeforeId :: string
  BeforeValue :: "sqlval option"
  Limit :: int

subsection \<open>Statements\<close>

text \<open>
  \<^verbatim>\<open>List\<close> grows its statement by appending fragments to a fixed head.  The model keeps
  the fragments as values; \<open>render_cond\<close>, \<open>render_ordering\<close> and \<open>render_query\<close>
  give the text of each, character for character as the format strings of the source
  produce it.  \<open>SoftDelete\<close> is the one statement of \<^verbatim>\<open>DeleteByTypeId\<close>.
\<close>

datatype cmp = Lt | Gt

datatype cond =
    Like
  | Keyset string cmp
  | IdCmp cmp

datatype ordering = OrderBy2 string SortOrder | OrderBy1 SortOrder

datatype query = Select "cond list" ordering | SoftDelete

fun render_cmp :: "cmp \<Rightarrow> string" where
  "render_cmp Lt = ''<''"
| "render_cmp Gt = ''>''"

fun render_SortOrder :: "SortOrder \<Rightarrow> string" where
  "render_SortOrder SortOrderAsc = ''ASC''"
| "render_SortOrder SortOrderDesc = ''DESC''"

fun render_cond :: "cond \<Rightarrow> string" where
  "render_cond Like = '' AND typeId LIKE ?''"
| "render_cond (Keyset sortBy c) =
     '' AND ('' @ sortBy @ '' '' @ render_cmp c @ '' ? OR (typeId '' @ render_cmp c @ '' ? AND ''
       @ sortBy @ '' = ?))''"
| "render_cond (IdCmp c) = '' AND typeId '' @ render_cmp c @ '' ?''"

fun render_ordering :: "ordering \<Rightarrow> string" where
  "render_ordering (OrderBy2 sortBy ord) =
     '' ORDER BY '' @ sortBy @ '' '' @ render_SortOrder ord @ '', typeId '' @ render_SortOrder ord
       @ '' LIMIT ?''"
| "render_ordering (OrderBy1 ord) = '' ORDER BY typeId '' @ render_SortOrder ord @ '' LIMIT ?''"

definition nl :: char where "nl = CHR 0x0A"
definition tab :: char where "tab = CHR 0x09"

definition list_head :: string where
  "list_head =
     [nl, tab, tab] @ ''SELECT id, typeId, definition, createdAt, updatedAt, deletedAt''
     @ [nl, tab, tab] @ ''FROM objectType''
     @ [nl, tab, tab] @ ''WHERE''
     @ [nl, tab, tab, tab] @ ''deletedAt IS NULL''
     @ [nl, tab]"

definition soft_delete_text :: string where
  "soft_delete_text =
     [nl, tab, tab, tab] @ ''UPDATE objectType''
     @ [nl, tab, tab, tab] @ ''SET''
     @ [nl, tab, tab, tab, tab] @ ''deletedAt = ?''
     @ [nl, tab, tab, tab] @ ''WHERE''
     @ [nl, tab, tab, tab, tab] @ ''typeId = ? AND''
     @ [nl, tab, tab, tab, tab] @ ''deletedAt IS NULL''
     @ [nl, tab, tab]"

fun render_query :: "query \<Rightarrow> string" where
  "render_query (Select cs ord) = list_head @ concat (map render_cond cs) @ render_ordering ord"
| "render_query SoftDelete = soft_delete_text"

subsection \<open>\<open>MySQLRepository.List\<close>\<close>

text \<open>The four stages of \<^verbatim>\<open>List\<close>, each taking and returning the statement built so
  far and the \<^verbatim>\<open>replacements\<close> slice.\<close>

definition List_search :: "ListParams \<Rightarrow> cond list \<times> sqlval list \<Rightarrow> cond list \<times> sqlval list" where
  "List_search p qr =
     (case qr of (query, replacements) \<Rightarrow>
        if Query p \<noteq> [] then
          (let searchTermReplacement = VStr (''%'' @ Query p @ ''%'')
           in (query @ [Like], replacements @ [searchTermReplacement, searchTermReplacement]))
        else (query, replacements))"

definition List_after :: "ListParams \<Rightarrow> cond list \<times> sqlval list \<Rightarrow> cond list \<times> sqlval list" where
  "List_after p qr =
     (case qr of (query, replacements) \<Rightarrow>
        if AfterId p \<noteq> [] then
          (case AfterValue p of
             Some v \<Rightarrow>
               (if SortOrder p = SortOrderAsc then
                  (query @ [Keyset (SortBy p) Gt], replacements @ [v, VStr (AfterId p), v])
                else
                  (query @ [Keyset (SortBy p) Lt], replacements @ [v, VStr (AfterId p), v]))
           | None \<Rightarrow>
               (if SortOrder p = SortOrderAsc then
                  (query @ [IdCmp Gt], replacements @ [VStr (AfterId p)])
                else
                  (query @ [IdCmp Lt], replacements @ [VStr (AfterId p)])))
        else (query, replacements))"

definition List_before :: "ListParams \<Rightarrow> cond list \<times> sqlval list \<Rightarrow> cond list \<times> sqlval list" where
  "List_before p qr =
     (case qr of (query, replacements) \<Rightarrow>
        if BeforeId p \<noteq> [] then
          (case BeforeValue p of
             Some v \<Rightarrow>
               (if SortOrder p = SortOrderAsc then
                  (query @ [Keyset (SortBy p) Lt], replacements @ [v, VStr (BeforeId p), v])
                else
                  (query @ [Keyset (SortBy p) Gt], replacements @ [v, VStr (BeforeId p), v]))
           | None \<Rightarrow>
               (if SortOrder p = SortOrderAsc then
                  (query @ [IdCmp Lt], replacements @ [VStr (AfterId p)])
                else
                  (query @ [IdCmp Gt], replacements @ [VStr (AfterId p)])))
        else (query, replacements))"

definition List_order :: "ListParams \<Rightarrow> cond list \<times> sqlval list \<Rightarrow> query \<times> sqlval list" where
  "List_order p qr =
     (case qr of (query, replacements) \<Rightarrow>
        if SortBy p \<noteq> ''objectType'' then
          (Select query (OrderBy2 (SortBy p) (SortOrder p)), replacements @ [VInt (Limit p)])
        else
          (Select query (OrderBy1 (SortOrder p)), replacements @ [VInt (Limit p)]))"

definition List_build :: "ListParams \<Rightarrow> query \<times> sqlval list" where
  "List_build p = List_order p (List_before p (List_after p (List_search p ([], []))))"

definition List ::
  "('s, query, sqlval, 'r, 'm list) sqlx \<Rightarrow> ctx \<Rightarrow> ListParams \<Rightarrow> 's
     \<Rightarrow> ('m list \<times> err option) \<times> 's" where
  "List db c p s =
     (case List_build p of (query, replacements) \<Rightarrow>
        (case SQL_SelectContext db c query replacements s of
           ((objectTypes, e), s') \<Rightarrow>
             (case e of
                Some x \<Rightarrow>
                  (if x = ErrNoRows then (([], None), s')
                   else (([], Some (Wrap x ''Unable to get object types from mysql'')), s'))
              | None \<Rightarrow> ((objectTypes, None), s'))))"

text \<open>
  The text of the statement built the way the source builds it, one \<^verbatim>\<open>fmt.Sprintf\<close> per
  branch, to compare with the rendering of the fragments.
\<close>

definition List_text :: "ListParams \<Rightarrow> string" where
  "List_text p =
     (let query = list_head;
          query = (if Query p \<noteq> [] then query @ '' AND typeId LIKE ?'' else query);
          query =
            (if AfterId p \<noteq> [] then
               (case AfterValue p of
                  Some v \<Rightarrow>
                    (if SortOrder p = SortOrderAsc then
                       query @ '' AND ('' @ SortBy p @ '' > ? OR (typeId > ? AND '' @ SortBy p @ '' = ?))''
                     else
                       query @ '' AND ('' @ SortBy p @ '' < ? OR (typeId < ? AND '' @ SortBy p @ '' = ?))'')
                | None \<Rightarrow>
                    (if SortOrder p = SortOrderAsc then query @ '' AND typeId > ?''
                     else query @ '' AND typeId < ?''))
             else query);
          query =
            (if BeforeId p \<noteq> [] then
               (case BeforeValue p of
                  Some v \<Rightarrow>
                    (if SortOrder p = SortOrderAsc then
                       query @ '' AND ('' @ SortBy p @ '' < ? OR (typeId < ? AND '' @ SortBy p @ '' = ?))''
                     else
                       query @ '' AND ('' @ SortBy p @ '' > ? OR (typeId > ? AND '' @ SortBy p @ '' = ?))'')
                | None \<Rightarrow>
                    (if SortOrder p = SortOrderAsc then query @ '' AND typeId < ?''
                     else query @ '' AND typeId > ?''))
             else query)
      in if SortBy p \<noteq> ''objectType'' then
           query @ '' ORDER BY '' @ SortBy p @ '' '' @ render_SortOrder (SortOrder p) @ '', typeId ''
             @ render_SortOrder (SortOrder p) @ '' LIMIT ?''
         else query @ '' ORDER BY typeId '' @ render_SortOrder (SortOrder p) @ '' LIMIT ?'')"

subsection \<open>\<open>MySQLRepository.DeleteByTypeId\<close>\<close>

text \<open>\<open>now\<close> stands for \<^verbatim>\<open>time.Now().UTC()\<close>.\<close>

definition DeleteByTypeId ::
  "('s, query, sqlval, 'r, 'd) sqlx \<Rightarrow> ctx \<Rightarrow> int \<Rightarrow> string \<Rightarrow> 's \<Rightarrow> err option \<times> 's" where
  "DeleteByTypeId db c now typeId s =
     (case SQL_ExecContext db c SoftDelete [VInt now, VStr typeId] s of
        ((result, e), s') \<Rightarrow>
          (case e of
             Some x \<Rightarrow>
               (if x = ErrNoRows then (Some (RecordNotFoundError ''ObjectType'' typeId), s')
                else (Some x, s'))
           | None \<Rightarrow> (None, s')))"

section \<open>A store to run the statements against\<close>

text \<open>
  The database server is external.  To say which rows a statement returns, this section
  gives the statements above a meaning over a table of object types, following MySQL and
  Go's \<^verbatim>\<open>database/sql\<close>: placeholders are bound to the arguments by position; a
  statement whose number of placeholders differs from the number of arguments is refused
  with an error before it runs; a comparison with NULL or between values of different
  kinds is not true; strings compare byte by byte.  Only the columns the statements
  select exist.
\<close>

record ObjectType =
  ID :: int
  TypeId :: string
  Definition :: string
  CreatedAt :: int
  UpdatedAt :: int
  DeletedAt :: "int option"

definition column :: "string \<Rightarrow> ObjectType \<Rightarrow> sqlval option" where
  "column name r =
     (if name = ''id'' then Some (VInt (ID r))
      else if name = ''typeId'' then Some (VStr (TypeId r))
      else if name = ''definition'' then Some (VStr (Definition r))
      else if name = ''createdAt'' then Some (VInt (CreatedAt r))
      else if name = ''updatedAt'' then Some (VInt (UpdatedAt r))
      else if name = ''deletedAt'' then Some (case DeletedAt r of None \<Rightarrow> VNull | Some t \<Rightarrow> VInt t)
      else None)"

definition colval :: "string \<Rightarrow> ObjectType \<Rightarrow> sqlval" where
  "colval name r = (case column name r of Some v \<Rightarrow> v | None \<Rightarrow> VNull)"

definition known_column :: "string \<Rightarrow> bool" where
  "known_column name =
     (name \<in> set [''id'', ''typeId'', ''definition'', ''createdAt'', ''updatedAt'', ''deletedAt''])"

fun str_lt :: "string \<Rightarrow> string \<Rightarrow> bool" where
  "str_lt [] [] = False"
| "str_lt [] (y # ys) = True"
| "str_lt (x # xs) [] = False"
| "str_lt (x # xs) (y # ys) =
     ((of_char x :: nat) < of_char y \<or> (x = y \<and> str_lt xs ys))"

fun sql_lt :: "sqlval \<Rightarrow> sqlval \<Rightarrow> bool" where
  "sql_lt (VInt x) (VInt y) = (x < y)"
| "sql_lt (VStr x) (VStr y) = str_lt x y"
| "sql_lt _ _ = False"

definition sql_eq :: "sqlval \<Rightarrow> sqlval \<Rightarrow> bool" where
  "sql_eq a b = (a = b \<and> a \<noteq> VNull)"

fun sql_cmp :: "cmp \<Rightarrow> sqlval \<Rightarrow> sqlval \<Rightarrow> bool" where
  "sql_cmp Lt a b = sql_lt a b"
| "sql_cmp Gt a b = sql_lt b a"

text \<open>\<^verbatim>\<open>LIKE\<close>: \<^verbatim>\<open>%\<close> matches any run of characters, \<^verbatim>\<open>_\<close> any one character.\<close>

fun like_match :: "string \<Rightarrow> string \<Rightarrow> bool" where
  "like_match [] s = (s = [])"
| "like_match (c # cs) s =
     (if c = CHR ''%'' then list_ex (\<lambda>k. like_match cs (drop k s)) [0..<Suc (length s)]
      else if c = CHR ''_'' then (case s of [] \<Rightarrow> False | x # xs \<Rightarrow> like_match cs xs)
      else (case s of [] \<Rightarrow> False | x # xs \<Rightarrow> x = c \<and> like_match cs xs))"

fun placeholders :: "cond \<Rightarrow> nat" where
  "placeholders Like = 1"
| "placeholders (Keyset sortBy c) = 3"
| "placeholders (IdCmp c) = 1"

text \<open>One fragment of the \<^verbatim>\<open>WHERE\<close> clause on one row, with the arguments bound to
  its own placeholders, in the order the placeholders stand in the text.\<close>

fun cond_holds :: "cond \<Rightarrow> sqlval list \<Rightarrow> ObjectType \<Rightarrow> bool" where
  "cond_holds Like [pat] r =
     (case pat of VStr pt \<Rightarrow> like_match pt (TypeId r) | _ \<Rightarrow> False)"
| "cond_holds (Keyset sortBy c) [a1, a2, a3] r =
     (sql_cmp c (colval sortBy r) a1 \<or>
      (sql_cmp c (VStr (TypeId r)) a2 \<and> sql_eq (colval sortBy r) a3))"
| "cond_holds (IdCmp c) [a1] r = sql_cmp c (VStr (TypeId r)) a1"
| "cond_holds _ _ r = False"

fun conds_hold :: "cond list \<Rightarrow> sqlval list \<Rightarrow> ObjectType \<Rightarrow> bool" where
  "conds_hold [] args r = True"
| "conds_hold (c # cs) args r =
     (cond_holds c (take (placeholders c) args) r \<and> conds_hold cs (drop (placeholders c) args) r)"

text \<open>Which arguments each fragment receives when the placeholders are bound by
  position, as \<open>conds_hold\<close> hands them out.\<close>

fun bound_args :: "cond list \<Rightarrow> sqlval list \<Rightarrow> (cond \<times> sqlval list) list" where
  "bound_args [] args = []"
| "bound_args (c # cs) args =
     (c, take (placeholders c) args) # bound_args cs (drop (placeholders c) args)"

fun cond_columns_known :: "cond \<Rightarrow> bool" where
  "cond_columns_known (Keyset sortBy c) = known_column sortBy"
| "cond_columns_known _ = True"

fun ordering_columns_known :: "ordering \<Rightarrow> bool" where
  "ordering_columns_known (OrderBy2 sortBy ord) = known_column sortBy"
| "ordering_columns_known (OrderBy1 ord) = True"

text \<open>\<^verbatim>\<open>ORDER BY\<close>: NULL sorts first; the sort is an insertion sort that keeps rows
  with equal keys in table order.\<close>

fun sort_lt :: "sqlval \<Rightarrow> sqlval \<Rightarrow> bool" where
  "sort_lt VNull VNull = False"
| "sort_lt VNull b = True"
| "sort_lt a VNull = False"
| "sort_lt (VInt x) (VInt y) = (x < y)"
| "sort_lt (VInt x) (VStr y) = True"
| "sort_lt (VStr x) (VInt y) = False"
| "sort_lt (VStr x) (VStr y) = str_lt x y"

definition key2_lt :: "string \<Rightarrow> ObjectType \<Rightarrow> ObjectType \<Rightarrow> bool" where
  "key2_lt sortBy r1 r2 =
     (sort_lt (colval sortBy r1) (colval sortBy r2) \<or>
      (colval sortBy r1 = colval sortBy r2 \<and> str_lt (TypeId r1) (TypeId r2)))"

fun row_before :: "ordering \<Rightarrow> ObjectType \<Rightarrow> ObjectType \<Rightarrow> bool" where
  "row_before (OrderBy2 sortBy SortOrderAsc) r1 r2 = key2_lt sortBy r1 r2"
| "row_before (OrderBy2 sortBy SortOrderDesc) r1 r2 = key2_lt sortBy r2 r1"
| "row_before (OrderBy1 SortOrderAsc) r1 r2 = str_lt (TypeId r1) (TypeId r2)"
| "row_before (OrderBy1 SortOrderDesc) r1 r2 = str_lt (TypeId r2) (TypeId r1)"

fun insert_row :: "ordering \<Rightarrow> ObjectType \<Rightarrow> ObjectType list \<Rightarrow> ObjectType list" where
  "insert_row ord r [] = [r]"
| "insert_row ord r (x # xs) =
     (if row_before ord x r then x # insert_row ord r xs else r # x # xs)"

definition order_rows :: "ordering \<Rightarrow> ObjectType list \<Rightarrow> ObjectType list" where
  "order_rows ord rs = foldr (insert_row ord) rs []"

definition run_select ::
  "ObjectType list \<Rightarrow> cond list \<Rightarrow> ordering \<Rightarrow> sqlval list \<Rightarrow> err + ObjectType list" where
  "run_select tbl cs ord args =
     (if length args \<noteq> sum_list (map placeholders cs) + 1 then
        Inl (DriverErr ''sql: wrong number of arguments'')
      else if \<not> (list_all cond_columns_known cs \<and> ordering_columns_known ord) then
        Inl (DriverErr ''Error 1054: Unknown column'')
      else
        (case last args of
           VInt n \<Rightarrow>
             if n < 0 then Inl (DriverErr ''Error 1064: negative LIMIT'')
             else Inr (take (nat n)
                    (order_rows ord
                       (filter (\<lambda>r. DeletedAt r = None \<and> conds_hold cs (butlast args) r) tbl)))
         | _ \<Rightarrow> Inl (DriverErr ''Error 1064: LIMIT is not an integer'')))"

record Result =
  LastInsertId :: int
  RowsAffected :: int

definition soft_delete_row :: "int \<Rightarrow> string \<Rightarrow> ObjectType \<Rightarrow> ObjectType" where
  "soft_delete_row t tid r =
     (if TypeId r = tid \<and> DeletedAt r = None then r\<lparr>DeletedAt := Some t\<rparr> else r)"

definition run_soft_delete ::
  "ObjectType list \<Rightarrow> sqlval list \<Rightarrow> (Result \<times> err option) \<times> ObjectType list" where
  "run_soft_delete tbl args =
     (case args of
        [VInt t, VStr tid] \<Rightarrow>
          ((\<lparr>LastInsertId = 0,
             RowsAffected = int (length (filter (\<lambda>r. TypeId r = tid \<and> DeletedAt r = None) tbl))\<rparr>,
            None),
           map (soft_delete_row t tid) tbl)
      | _ \<Rightarrow> ((\<lparr>LastInsertId = 0, RowsAffected = 0\<rparr>,
                Some (DriverErr ''sql: wrong number or kind of arguments'')), tbl))"

text \<open>
  The store: the table, and what the next \<^verbatim>\<open>Beginx\<close>, \<^verbatim>\<open>Commit\<close> and \<^verbatim>\<open>Rollback\<close> will
  answer, so that their failures can be played.  Transactions are numbered in the order
  they begin.  Isolation and the undoing of changes by a rollback are not modelled.
\<close>

record dbstate =
  objectType :: "ObjectType list"
  next_tx :: nat
  begin_failure :: "err option"
  commit_failure :: "err option"
  rollback_failure :: "err option"

definition store_select ::
  "query \<Rightarrow> sqlval list \<Rightarrow> dbstate \<Rightarrow> (ObjectType list \<times> err option) \<times> dbstate" where
  "store_select q args s =
     (case q of
        Select cs ord \<Rightarrow>
          (case run_select (objectType s) cs ord args of
             Inl e \<Rightarrow> (([], Some e), s)
           | Inr rows \<Rightarrow> ((rows, None), s))
      | SoftDelete \<Rightarrow> (([], Some (DriverErr ''statement returns no rows'')), s))"

definition store_get ::
  "query \<Rightarrow> sqlval list \<Rightarrow> dbstate \<Rightarrow> (ObjectType list \<times> err option) \<times> dbstate" where
  "store_get q args s =
     (case store_select q args s of
        ((rows, Some e), s') \<Rightarrow> (([], Some e), s')
      | (([], None), s') \<Rightarrow> (([], Some ErrNoRows), s')
      | ((r # rows, None), s') \<Rightarrow> (([r], None), s'))"

definition store_exec ::
  "query \<Rightarrow> sqlval list \<Rightarrow> dbstate \<Rightarrow> (Result \<times> err option) \<times> dbstate" where
  "store_exec q args s =
     (case q of
        SoftDelete \<Rightarrow>
          (case run_soft_delete (objectType s) args of
             (res, tbl') \<Rightarrow> (res, s\<lparr>objectType := tbl'\<rparr>))
      | Select cs ord \<Rightarrow>
          (case run_select (objectType s) cs ord args of
             Inl e \<Rightarrow> ((\<lparr>LastInsertId = 0, RowsAffected = 0\<rparr>, Some e), s)
           | Inr rows \<Rightarrow> ((\<lparr>LastInsertId = 0, RowsAffected = 0\<rparr>, None), s)))"

definition mysql :: "(dbstate, query, sqlval, Result, ObjectType list) sqlx" where
  "mysql =
     \<lparr>Rebind = (\<lambda>q. q),
      Beginx = (\<lambda>s. case begin_failure s of
                       Some e \<Rightarrow> (Inl e, s)
                     | None \<Rightarrow> (Inr (next_tx s), s\<lparr>next_tx := Suc (next_tx s)\<rparr>)),
      Commit = (\<lambda>tx s. (commit_failure s, s)),
      Rollback = (\<lambda>tx s. (rollback_failure s, s)),
      ExecContext = (\<lambda>cn. store_exec),
      GetContext = (\<lambda>cn. store_get),
      NamedExecContext = (\<lambda>cn q arg. store_exec q [arg]),
      QueryContext = (\<lambda>cn. store_select),
      SelectContext = (\<lambda>cn. store_select)\<rparr>"

text \<open>Rows and requests used in the examples.\<close>

definition mk_row :: "int \<Rightarrow> string \<Rightarrow> int \<Rightarrow> ObjectType" where
  "mk_row i tid created =
     \<lparr>ID = i, TypeId = tid, Definition = ''{}'', CreatedAt = created, UpdatedAt = created,
      DeletedAt = None\<rparr>"

definition rows_abcd :: "ObjectType list" where
  "rows_abcd = [mk_row 1 ''a'' 1, mk_row 2 ''b'' 1, mk_row 3 ''c'' 2, mk_row 4 ''d'' 3]"

definition db_abcd :: dbstate where
  "db_abcd =
     \<lparr>objectType = rows_abcd, next_tx = 0, begin_failure = None, commit_failure = None,
      rollback_failure = None\<rparr>"

definition no_tx :: ctx where
  "no_tx = \<lparr>txKey = None\<rparr>"

definition list_all_asc :: ListParams where
  "list_all_asc =
     \<lparr>Query = [], SortBy = ''createdAt'', SortOrder = SortOrderAsc, AfterId = [],
      AfterValue = None, BeforeId = [], BeforeValue = None, Limit = 10\<rparr>"

section \<open>Notions used to state the properties\<close>

text \<open>
  The handle and the statement text that reach the sqlx layer when a method of \<open>SQL\<close> is
  called with context \<open>c\<close>: inside a transaction the statement has been rebound twice,
  once by \<open>SQL\<close> and once by \<open>SqlTx\<close>.
\<close>

definition underlying_conn :: "ctx \<Rightarrow> conn" where
  "underlying_conn c = (case txKey c of Some t \<Rightarrow> InTx (Tx t) | None \<Rightarrow> Pool)"

definition underlying_query :: "('s, 'q, 'a, 'r, 'd) sqlx \<Rightarrow> ctx \<Rightarrow> 'q \<Rightarrow> 'q" where
  "underlying_query db c query =
     (case txKey c of Some t \<Rightarrow> Rebind db (Rebind db query) | None \<Rightarrow> Rebind db query)"

text \<open>
  What the specification asks of the error \<open>r\<close> an operation returns when the layer
  beneath answered \<open>u\<close>: the no-rows sentinel comes back as itself, any other error
  comes back inside a wrapper that keeps its cause.
\<close>

definition sentinel_preserved :: "err option \<Rightarrow> err option \<Rightarrow> bool" where
  "sentinel_preserved u r =
     (case u of
        None \<Rightarrow> r = None
      | Some e \<Rightarrow>
          if e = ErrNoRows then r = Some ErrNoRows
          else (\<exists>e' msg. r = Some (Wrap e' msg) \<and> Cause e' = Cause e))"

text \<open>
  The forward cursor as the specification words it: the comparison is \<open>>\<close> for
  ascending and \<open><\<close> for descending order; with an \<open>afterValue\<close> the predicate is
  \<open>sortField \<rhd> afterValue OR (sortField = afterValue AND id \<rhd> afterId)\<close>, without one it
  is \<open>id \<rhd> afterId\<close>.
\<close>

definition after_cmp :: "ListParams \<Rightarrow> cmp" where
  "after_cmp p = (case SortOrder p of SortOrderAsc \<Rightarrow> Gt | SortOrderDesc \<Rightarrow> Lt)"

definition spec_after :: "ListParams \<Rightarrow> ObjectType \<Rightarrow> bool" where
  "spec_after p r =
     (case AfterValue p of
        Some v \<Rightarrow>
          sql_cmp (after_cmp p) (colval (SortBy p) r) v \<or>
          (sql_eq (colval (SortBy p) r) v \<and>
           sql_cmp (after_cmp p) (VStr (TypeId r)) (VStr (AfterId p)))
      | None \<Rightarrow> sql_cmp (after_cmp p) (VStr (TypeId r)) (VStr (AfterId p)))"




text \<open>The fragment and the arguments the forward-cursor stage of \<open>List\<close> appends.\<close>

definition after_cond :: "ListParams \<Rightarrow> cond" where
  "after_cond p =
     (case AfterValue p of
        Some v \<Rightarrow> Keyset (SortBy p) (after_cmp p)
      | None \<Rightarrow> IdCmp (after_cmp p))"

definition after_args :: "ListParams \<Rightarrow> sqlval list" where
  "after_args p =
     (case AfterValue p of
        Some v \<Rightarrow> [v, VStr (AfterId p), v]
      | None \<Rightarrow> [VStr (AfterId p)])"

text \<open>Units of work and a starting world used in the examples.\<close>

definition returning :: "err option \<Rightarrow> (dbstate, string) txFunc" where
  "returning e = (\<lambda>c w. (Returned e, w))"

definition panicking :: "string option \<Rightarrow> (dbstate, string) txFunc" where
  "panicking p = (\<lambda>c w. (Panicked p, w))"

definition world0 :: "dbstate \<Rightarrow> dbstate world" where
  "world0 s = \<lparr>trace = [], store = s\<rparr>"

definition in_tx :: "nat \<Rightarrow> ctx" where
  "in_tx n = \<lparr>txKey = Some (SqlTx n)\<rparr>"

definition get_after_d :: "query \<times> sqlval list" where
  "get_after_d = (Select [IdCmp Gt] (OrderBy1 SortOrderAsc), [VStr ''d'', VInt 1])"

text \<open>Requests used in the examples.\<close>

definition after_a1 :: ListParams where
  "after_a1 = list_all_asc\<lparr>AfterId := ''a'', AfterValue := Some (VInt 1)\<rparr>"

definition before_c2 :: ListParams where
  "before_c2 = list_all_asc\<lparr>BeforeId := ''c'', BeforeValue := Some (VInt 2)\<rparr>"

definition before_c :: ListParams where
  "before_c = list_all_asc\<lparr>BeforeId := ''c''\<rparr>"

definition search_c_after_a1 :: ListParams where
  "search_c_after_a1 = list_all_asc\<lparr>Query := ''c'', AfterId := ''a'', AfterValue := Some (VInt 1)\<rparr>"

definition search_b_after_a1 :: ListParams where
  "search_b_after_a1 = list_all_asc\<lparr>Query := ''b'', AfterId := ''a'', AfterValue := Some (VInt 1)\<rparr>"



section \<open>Properties of the transaction manager\<close>

lemma WithinTransaction_reuse:
  "txKey c = Some t \<Longrightarrow> WithinTransaction db c f w = f c w"
  by (simp add: WithinTransaction_def)

lemma txKey_WithValue [simp]: "txKey (WithValue_txKey c t) = Some t"
  by (simp add: WithValue_txKey_def)

lemma nested_reuse:
  "txKey c = Some t \<Longrightarrow> nested db n f c w = f c w"
  by (induction n) (simp_all add: WithinTransaction_reuse)

lemma DB_Beginx_eq:
  "Beginx db (store w) = (r, s1) \<Longrightarrow>
   DB_Beginx db w = (r, w\<lparr>trace := trace w @ [EvBegin r], store := s1\<rparr>)"
  by (simp add: DB_Beginx_def)

lemma deferred_panic:
  "Rollback db tx (store w) = (rb, s') \<Longrightarrow>
   deferred db tx (Some pv) e w =
     ((Some pv, rb),
      log_if_err rb ''error rolling back sql transaction''
        (w\<lparr>trace := trace w @ [EvRollback tx rb], store := s'\<rparr>))"
  by (simp add: deferred_def Tx_Rollback_def)

lemma deferred_error:
  "Rollback db tx (store w) = (rb, s') \<Longrightarrow>
   deferred db tx None (Some e) w =
     ((None, rb),
      log_if_err rb ''error rolling back sql transaction''
        (w\<lparr>trace := trace w @ [EvRollback tx rb], store := s'\<rparr>))"
  by (simp add: deferred_def Tx_Rollback_def)

lemma deferred_nil:
  "Commit db tx (store w) = (cm, s') \<Longrightarrow>
   deferred db tx None None w =
     ((None, cm),
      log_if_err cm ''error committing sql transaction''
        (w\<lparr>trace := trace w @ [EvCommit tx cm], store := s'\<rparr>))"
  by (simp add: deferred_def Tx_Commit_def)

lemma trace_log_if_err:
  "trace (log_if_err e msg w) = trace w @ (case e of Some x \<Rightarrow> [EvLog x msg] | None \<Rightarrow> [])"
  by (simp add: log_if_err_def split: option.splits)

lemma store_log_if_err [simp]: "store (log_if_err e msg w) = store w"
  by (simp add: log_if_err_def split: option.splits)

text \<open>The outermost call, once \<^verbatim>\<open>Beginx\<close> has succeeded, by what the unit of work does.\<close>

lemma WithinTransaction_outermost:
  assumes "txKey c = None" and "Beginx db (store w) = (Inr tx, s1)"
  shows "WithinTransaction db c txFunc w =
     (case txFunc (WithValue_txKey c (SqlTx tx)) (w\<lparr>trace := trace w @ [EvBegin (Inr tx)], store := s1\<rparr>) of
        (Panicked (Some pv), w2) \<Rightarrow>
          (Panicked (Some pv),
           log_if_err (fst (Rollback db tx (store w2))) ''error rolling back sql transaction''
             (w2\<lparr>trace := trace w2 @ [EvRollback tx (fst (Rollback db tx (store w2)))],
                 store := snd (Rollback db tx (store w2))\<rparr>))
      | (Panicked None, w2) \<Rightarrow>
          (Returned None,
           log_if_err (fst (Commit db tx (store w2))) ''error committing sql transaction''
             (w2\<lparr>trace := trace w2 @ [EvCommit tx (fst (Commit db tx (store w2)))],
                 store := snd (Commit db tx (store w2))\<rparr>))
      | (Returned (Some e), w2) \<Rightarrow>
          (Returned (Some e),
           log_if_err (fst (Rollback db tx (store w2))) ''error rolling back sql transaction''
             (w2\<lparr>trace := trace w2 @ [EvRollback tx (fst (Rollback db tx (store w2)))],
                 store := snd (Rollback db tx (store w2))\<rparr>))
      | (Returned None, w2) \<Rightarrow>
          (Returned None,
           log_if_err (fst (Commit db tx (store w2))) ''error committing sql transaction''
             (w2\<lparr>trace := trace w2 @ [EvCommit tx (fst (Commit db tx (store w2)))],
                 store := snd (Commit db tx (store w2))\<rparr>)))"
  using assms
  by (simp add: WithinTransaction_def DB_Beginx_eq
        deferred_panic [OF surjective_pairing] deferred_error [OF surjective_pairing]
        deferred_nil [OF surjective_pairing]
      split: prod.splits outcome.splits option.splits)

lemma WithinTransaction_begin_fails:
  "txKey c = None \<Longrightarrow> Beginx db (store w) = (Inl e, s1) \<Longrightarrow>
   WithinTransaction db c txFunc w =
     (Returned (Some (Wrap e ''Error beginning sql transaction'')),
      w\<lparr>trace := trace w @ [EvBegin (Inl e)], store := s1\<rparr>)"
  by (simp add: WithinTransaction_def DB_Beginx_eq)

text \<open>
  With a unit of work that returns nil, \<^verbatim>\<open>Commit\<close> is called once, its error (if any)
  is logged, and the call returns nil whatever \<^verbatim>\<open>Commit\<close> answered.
\<close>

lemma WithinTransaction_commit_failure:
  assumes "txKey c = None"
    and "Beginx db (store w) = (Inr tx, s1)"
    and "txFunc (WithValue_txKey c (SqlTx tx))
           (w\<lparr>trace := trace w @ [EvBegin (Inr tx)], store := s1\<rparr>) = (Returned None, w2)"
    and "Commit db tx (store w2) = (cm, s3)"
  shows "fst (WithinTransaction db c txFunc w) = Returned None \<and>
         trace (snd (WithinTransaction db c txFunc w)) =
           trace w2 @ EvCommit tx cm #
             (case cm of Some x \<Rightarrow> [EvLog x ''error committing sql transaction''] | None \<Rightarrow> [])"
  using assms(3,4)
  by (simp add: WithinTransaction_outermost [OF assms(1,2)] trace_log_if_err)

lemma counts_nil [simp]: "begins [] = 0" "commits [] = 0" "rollbacks [] = 0"
  by (simp_all add: begins_def commits_def rollbacks_def)

lemma counts_append [simp]:
  "begins (xs @ ys) = begins xs + begins ys"
  "commits (xs @ ys) = commits xs + commits ys"
  "rollbacks (xs @ ys) = rollbacks xs + rollbacks ys"
  by (simp_all add: begins_def commits_def rollbacks_def)

lemma counts_single [simp]:
  "begins [ev] = (if is_begin ev then 1 else 0)"
  "commits [ev] = (if is_commit ev then 1 else 0)"
  "rollbacks [ev] = (if is_rollback ev then 1 else 0)"
  by (simp_all add: begins_def commits_def rollbacks_def)

lemma counts_log_if_err [simp]:
  "begins (trace (log_if_err e msg w)) = begins (trace w)"
  "commits (trace (log_if_err e msg w)) = commits (trace w)"
  "rollbacks (trace (log_if_err e msg w)) = rollbacks (trace w)"
  by (simp_all add: trace_log_if_err split: option.splits)

lemma outermost_counts:
  assumes c: "txKey c = None" and b: "Beginx db (store w) = (Inr tx, s1)"
    and leaf: "\<And>c' w'. begins (trace (snd (f c' w'))) = begins (trace w') \<and>
                 commits (trace (snd (f c' w'))) + rollbacks (trace (snd (f c' w')))
                   = commits (trace w') + rollbacks (trace w')"
  shows "begins (trace (snd (WithinTransaction db c f w))) = begins (trace w) + 1 \<and>
         commits (trace (snd (WithinTransaction db c f w)))
           + rollbacks (trace (snd (WithinTransaction db c f w)))
           = commits (trace w) + rollbacks (trace w) + 1"
proof -
  let ?c1 = "WithValue_txKey c (SqlTx tx)"
  let ?w1 = "w\<lparr>trace := trace w @ [EvBegin (Inr tx)], store := s1\<rparr>"
  obtain out w2 where run: "f ?c1 ?w1 = (out, w2)"
    by (cases "f ?c1 ?w1")
  from leaf [of ?c1 ?w1] run
  have k: "begins (trace w2) = begins (trace w) + 1"
          "commits (trace w2) + rollbacks (trace w2) = commits (trace w) + rollbacks (trace w)"
    by simp_all
  show ?thesis
    using k run
    by (simp add: WithinTransaction_outermost [OF c b] split: outcome.splits option.splits)
qed

text \<open>
  C1 (the code departs from it).  The claim: when the unit of work returns nil in an
  outermost call, commit is attempted and a failing commit is what the call returns.
  On the code a failing commit is attempted and logged, and the call returns nil: here
  \<^verbatim>\<open>Beginx\<close> succeeds, the unit of work returns nil and \<^verbatim>\<open>Commit\<close> fails with
  \<open>DriverErr ''deadlock''\<close>.
\<close>

theorem C1_commit_failure_is_swallowed:
  "fst (WithinTransaction mysql no_tx (returning None)
          (world0 (db_abcd\<lparr>commit_failure := Some (DriverErr ''deadlock'')\<rparr>)))
     = Returned None \<and>
   trace (snd (WithinTransaction mysql no_tx (returning None)
          (world0 (db_abcd\<lparr>commit_failure := Some (DriverErr ''deadlock'')\<rparr>))))
     = [EvBegin (Inr 0), EvCommit 0 (Some (DriverErr ''deadlock'')),
        EvLog (DriverErr ''deadlock'') ''error committing sql transaction'']"
  by (simp add: WithinTransaction_def DB_Beginx_def deferred_def Tx_Commit_def log_if_err_def
        WithValue_txKey_def no_tx_def mysql_def world0_def db_abcd_def returning_def)

text \<open>
  C2.  When the context already carries a transaction, \<open>WithinTransaction\<close> is the unit
  of work itself, run on that same context: same result, same world, so no commit and
  no rollback of its own.  Hence a chain of any number \<open>n\<close> of nested calls behaves as
  the outermost call alone, and, when \<^verbatim>\<open>Beginx\<close> succeeds and the innermost unit of work
  does not itself begin or end transactions, the whole run adds exactly one begin and
  exactly one commit or rollback to the trace.
\<close>

theorem C2_nested_calls_share_one_transaction:
  assumes leaf: "\<And>c' w'. begins (trace (snd (f c' w'))) = begins (trace w') \<and>
                 commits (trace (snd (f c' w'))) + rollbacks (trace (snd (f c' w')))
                   = commits (trace w') + rollbacks (trace w')"
  shows "(txKey c = Some t \<longrightarrow> WithinTransaction db c f w = f c w) \<and>
         (txKey c = None \<longrightarrow>
            WithinTransaction db c (nested db n f) w = WithinTransaction db c f w) \<and>
         (txKey c = None \<longrightarrow> fst (Beginx db (store w)) = Inr tx \<longrightarrow>
            begins (trace (snd (WithinTransaction db c (nested db n f) w))) = begins (trace w) + 1 \<and>
            commits (trace (snd (WithinTransaction db c (nested db n f) w)))
              + rollbacks (trace (snd (WithinTransaction db c (nested db n f) w)))
              = commits (trace w) + rollbacks (trace w) + 1)"
proof (intro conjI impI)
  assume "txKey c = Some t"
  then show "WithinTransaction db c f w = f c w"
    by (rule WithinTransaction_reuse)
next
  assume c: "txKey c = None"
  show same: "WithinTransaction db c (nested db n f) w = WithinTransaction db c f w"
    by (simp add: WithinTransaction_def c nested_reuse [OF txKey_WithValue]
        split: prod.splits sum.splits)
  assume b: "fst (Beginx db (store w)) = Inr tx"
  then have b': "Beginx db (store w) = (Inr tx, snd (Beginx db (store w)))"
    by (metis prod.collapse)
  from outermost_counts [OF c b' leaf]
  show "begins (trace (snd (WithinTransaction db c (nested db n f) w))) = begins (trace w) + 1"
    and "commits (trace (snd (WithinTransaction db c (nested db n f) w)))
              + rollbacks (trace (snd (WithinTransaction db c (nested db n f) w)))
              = commits (trace w) + rollbacks (trace w) + 1"
    by (simp_all add: same)
qed

theorem C2_witness:
  "WithinTransaction mysql \<lparr>txKey = Some (SqlTx 5)\<rparr> (returning (Some ErrNoRows)) (world0 db_abcd)
     = (Returned (Some ErrNoRows), world0 db_abcd) \<and>
   WithinTransaction mysql no_tx (nested mysql 3 (returning (Some ErrNoRows))) (world0 db_abcd)
     = WithinTransaction mysql no_tx (returning (Some ErrNoRows)) (world0 db_abcd) \<and>
   begins (trace (snd (WithinTransaction mysql no_tx (nested mysql 3 (returning (Some ErrNoRows)))
       (world0 db_abcd)))) = 1 \<and>
   commits (trace (snd (WithinTransaction mysql no_tx (nested mysql 3 (returning (Some ErrNoRows)))
       (world0 db_abcd))))
     + rollbacks (trace (snd (WithinTransaction mysql no_tx (nested mysql 3 (returning (Some ErrNoRows)))
       (world0 db_abcd)))) = 1"
proof -
  have leaf: "\<And>c' w'. begins (trace (snd (returning (Some ErrNoRows) c' w'))) = begins (trace w') \<and>
      commits (trace (snd (returning (Some ErrNoRows) c' w')))
        + rollbacks (trace (snd (returning (Some ErrNoRows) c' w')))
        = commits (trace w') + rollbacks (trace w')"
    by (simp add: returning_def)
  have k1: "txKey \<lparr>txKey = Some (SqlTx 5)\<rparr> = Some (SqlTx 5)" and k2: "txKey no_tx = None"
    by (simp_all add: no_tx_def)
  have b: "fst (Beginx mysql (store (world0 db_abcd))) = Inr 0"
    by (simp add: mysql_def world0_def db_abcd_def)
  have t0: "trace (world0 db_abcd) = []"
    by (simp add: world0_def)
  have r: "returning (Some ErrNoRows) \<lparr>txKey = Some (SqlTx 5)\<rparr> (world0 db_abcd)
             = (Returned (Some ErrNoRows), world0 db_abcd)"
    by (simp add: returning_def)
  from C2_nested_calls_share_one_transaction
         [of "returning (Some ErrNoRows)" "\<lparr>txKey = Some (SqlTx 5)\<rparr>" "SqlTx 5" mysql
             "world0 db_abcd" 3 0, OF leaf]
       C2_nested_calls_share_one_transaction
         [of "returning (Some ErrNoRows)" no_tx "SqlTx 5" mysql "world0 db_abcd" 3 0, OF leaf]
  show ?thesis
    by (simp add: k1 k2 b t0 r) (elim conjE, simp)
qed

text \<open>
  C7.  When the unit of work of an outermost call returns a non-nil error \<open>e\<close>, the call
  returns \<open>e\<close> itself, whatever \<^verbatim>\<open>Rollback\<close> answers; the rollback is attempted once, and
  its failure, if any, is only logged.
\<close>

theorem C7_unit_error_returned_unchanged:
  assumes "txKey c = None"
    and "Beginx db (store w) = (Inr tx, s1)"
    and "txFunc (WithValue_txKey c (SqlTx tx))
           (w\<lparr>trace := trace w @ [EvBegin (Inr tx)], store := s1\<rparr>) = (Returned (Some e), w2)"
    and "Rollback db tx (store w2) = (rb, s3)"
  shows "fst (WithinTransaction db c txFunc w) = Returned (Some e) \<and>
         trace (snd (WithinTransaction db c txFunc w)) =
           trace w2 @ EvRollback tx rb #
             (case rb of Some x \<Rightarrow> [EvLog x ''error rolling back sql transaction''] | None \<Rightarrow> [])"
  using assms(3,4)
  by (simp add: WithinTransaction_outermost [OF assms(1,2)] trace_log_if_err)

theorem C7_witness:
  "fst (WithinTransaction mysql no_tx (returning (Some (DriverErr ''insert failed'')))
          (world0 (db_abcd\<lparr>rollback_failure := Some (DriverErr ''connection lost'')\<rparr>)))
     = Returned (Some (DriverErr ''insert failed'')) \<and>
   trace (snd (WithinTransaction mysql no_tx (returning (Some (DriverErr ''insert failed'')))
          (world0 (db_abcd\<lparr>rollback_failure := Some (DriverErr ''connection lost'')\<rparr>))))
     = [EvBegin (Inr 0), EvRollback 0 (Some (DriverErr ''connection lost'')),
        EvLog (DriverErr ''connection lost'') ''error rolling back sql transaction'']"
  using C7_unit_error_returned_unchanged
    [of no_tx mysql "world0 (db_abcd\<lparr>rollback_failure := Some (DriverErr ''connection lost'')\<rparr>)"
        0 "db_abcd\<lparr>rollback_failure := Some (DriverErr ''connection lost''), next_tx := 1\<rparr>"
        "returning (Some (DriverErr ''insert failed''))" "DriverErr ''insert failed''"
        "\<lparr>trace = [EvBegin (Inr 0)],
          store = db_abcd\<lparr>rollback_failure := Some (DriverErr ''connection lost''), next_tx := 1\<rparr>\<rparr>"
        "Some (DriverErr ''connection lost'')"
        "db_abcd\<lparr>rollback_failure := Some (DriverErr ''connection lost''), next_tx := 1\<rparr>"]
  by (simp add: no_tx_def mysql_def world0_def db_abcd_def returning_def)

text \<open>
  C9 as stated fails.  The claim: whenever the unit of work of an outermost call
  panics, rollback is attempted, commit is never invoked and the panic is raised again.
  The closure tests \<^verbatim>\<open>recover() != nil\<close>: for a panic whose recovered value is nil
  (\<^verbatim>\<open>panic(nil)\<close> before Go 1.21) it takes the branch for a nil \<^verbatim>\<open>err\<close>, commits, and
  the call returns nil.
\<close>

theorem C9_nil_panic_commits:
  "fst (WithinTransaction mysql no_tx (panicking None) (world0 db_abcd)) = Returned None \<and>
   trace (snd (WithinTransaction mysql no_tx (panicking None) (world0 db_abcd)))
     = [EvBegin (Inr 0), EvCommit 0 None] \<and>
   rollbacks (trace (snd (WithinTransaction mysql no_tx (panicking None) (world0 db_abcd)))) = 0"
  by (simp add: WithinTransaction_def DB_Beginx_def deferred_def Tx_Commit_def log_if_err_def
        WithValue_txKey_def no_tx_def mysql_def world0_def db_abcd_def panicking_def
        rollbacks_def)

text \<open>
  C9, amended.  When the unit of work of an outermost call panics with a value \<open>pv\<close>
  other than nil, the rollback is attempted (and its failure logged) before the call is
  left, no commit is made, and the call panics with the same \<open>pv\<close>.
\<close>

theorem C9_panic_rolls_back_and_propagates:
  assumes "txKey c = None"
    and "Beginx db (store w) = (Inr tx, s1)"
    and "txFunc (WithValue_txKey c (SqlTx tx))
           (w\<lparr>trace := trace w @ [EvBegin (Inr tx)], store := s1\<rparr>) = (Panicked (Some pv), w2)"
    and "Rollback db tx (store w2) = (rb, s3)"
  shows "fst (WithinTransaction db c txFunc w) = Panicked (Some pv) \<and>
         trace (snd (WithinTransaction db c txFunc w)) =
           trace w2 @ EvRollback tx rb #
             (case rb of Some x \<Rightarrow> [EvLog x ''error rolling back sql transaction''] | None \<Rightarrow> []) \<and>
         commits (trace (snd (WithinTransaction db c txFunc w))) = commits (trace w2)"
  using assms(3,4)
  by (simp add: WithinTransaction_outermost [OF assms(1,2)] trace_log_if_err commits_def
      split: option.splits)

theorem C9_witness:
  "fst (WithinTransaction mysql no_tx (panicking (Some ''nil pointer dereference''))
          (world0 (db_abcd\<lparr>rollback_failure := Some (DriverErr ''connection lost'')\<rparr>)))
     = Panicked (Some ''nil pointer dereference'') \<and>
   trace (snd (WithinTransaction mysql no_tx (panicking (Some ''nil pointer dereference''))
          (world0 (db_abcd\<lparr>rollback_failure := Some (DriverErr ''connection lost'')\<rparr>))))
     = [EvBegin (Inr 0), EvRollback 0 (Some (DriverErr ''connection lost'')),
        EvLog (DriverErr ''connection lost'') ''error rolling back sql transaction''] \<and>
   commits (trace (snd (WithinTransaction mysql no_tx (panicking (Some ''nil pointer dereference''))
          (world0 (db_abcd\<lparr>rollback_failure := Some (DriverErr ''connection lost'')\<rparr>))))) = 0"
  using C9_panic_rolls_back_and_propagates
    [of no_tx mysql "world0 (db_abcd\<lparr>rollback_failure := Some (DriverErr ''connection lost'')\<rparr>)"
        0 "db_abcd\<lparr>rollback_failure := Some (DriverErr ''connection lost''), next_tx := 1\<rparr>"
        "panicking (Some ''nil pointer dereference'')" "''nil pointer dereference''"
        "\<lparr>trace = [EvBegin (Inr 0)],
          store = db_abcd\<lparr>rollback_failure := Some (DriverErr ''connection lost''), next_tx := 1\<rparr>\<rparr>"
        "Some (DriverErr ''connection lost'')"
        "db_abcd\<lparr>rollback_failure := Some (DriverErr ''connection lost''), next_tx := 1\<rparr>"]
  by (simp add: no_tx_def mysql_def world0_def db_abcd_def panicking_def commits_def)

section \<open>Properties of the capability operations\<close>

lemma classify_eq:
  "classify msg res =
     ((fst (fst res),
       (case snd (fst res) of
          None \<Rightarrow> None
        | Some x \<Rightarrow> if x = ErrNoRows then Some ErrNoRows else Some (Wrap x msg))),
      snd res)"
  by (cases res) (auto simp: classify_def split: option.splits)

lemma sentinel_preserved_once:
  "sentinel_preserved u (snd (fst (classify msg ((v, u), s))))"
  by (simp add: classify_eq sentinel_preserved_def split: option.splits)

lemma sentinel_preserved_twice:
  "sentinel_preserved u (snd (fst (classify msg2 (classify msg1 ((v, u), s)))))"
  by (simp add: classify_eq sentinel_preserved_def split: option.splits)

lemma SqlTx_preserve:
  "sentinel_preserved (snd (fst (ExecContext db (InTx (Tx q)) (Rebind db query) args s)))
     (snd (fst (SqlTx_ExecContext db q query args s)))"
  "sentinel_preserved (snd (fst (GetContext db (InTx (Tx q)) (Rebind db query) args s)))
     (snd (fst (SqlTx_GetContext db q query args s)))"
  "sentinel_preserved (snd (fst (NamedExecContext db (InTx (Tx q)) (Rebind db query) arg s)))
     (snd (fst (SqlTx_NamedExecContext db q query arg s)))"
  "sentinel_preserved (snd (fst (QueryContext db (InTx (Tx q)) (Rebind db query) args s)))
     (snd (fst (SqlTx_QueryContext db q query args s)))"
  "sentinel_preserved (snd (fst (SelectContext db (InTx (Tx q)) (Rebind db query) args s)))
     (snd (fst (SqlTx_SelectContext db q query args s)))"
  unfolding SqlTx_ExecContext_def SqlTx_GetContext_def SqlTx_NamedExecContext_def
    SqlTx_QueryContext_def SqlTx_SelectContext_def
  by (metis sentinel_preserved_once prod.collapse)+

lemma SQL_ExecContext_eq:
  "SQL_ExecContext db c query args s =
     (case txKey c of
        None \<Rightarrow> classify ''Error when calling sql ExecContext''
                  (ExecContext db Pool (Rebind db query) args s)
      | Some t \<Rightarrow> classify ''Error when calling sql ExecContext''
                  (classify ''sql error''
                     (ExecContext db (InTx (Tx t)) (Rebind db (Rebind db query)) args s)))"
  by (simp add: SQL_ExecContext_def SqlTx_ExecContext_def getQueryableFromContext_def Let_def
      split: option.splits)

lemma SQL_GetContext_eq:
  "SQL_GetContext db c query args s =
     (case txKey c of
        None \<Rightarrow> classify ''Error when calling sql GetContext''
                  (GetContext db Pool (Rebind db query) args s)
      | Some t \<Rightarrow> classify ''Error when calling sql GetContext''
                  (classify ''sql error''
                     (GetContext db (InTx (Tx t)) (Rebind db (Rebind db query)) args s)))"
  by (simp add: SQL_GetContext_def SqlTx_GetContext_def getQueryableFromContext_def Let_def
      split: option.splits)

lemma SQL_NamedExecContext_eq:
  "SQL_NamedExecContext db c query arg s =
     (case txKey c of
        None \<Rightarrow> classify ''Error when calling sql NamedExecContext''
                  (NamedExecContext db Pool (Rebind db query) arg s)
      | Some t \<Rightarrow> classify ''Error when calling sql NamedExecContext''
                  (classify ''sql error''
                     (NamedExecContext db (InTx (Tx t)) (Rebind db (Rebind db query)) arg s)))"
  by (simp add: SQL_NamedExecContext_def SqlTx_NamedExecContext_def getQueryableFromContext_def
        Let_def split: option.splits)

lemma SQL_QueryContext_eq:
  "SQL_QueryContext db c query args s =
     (case txKey c of
        None \<Rightarrow> classify ''Error when calling sql QueryContext''
                  (QueryContext db Pool (Rebind db query) args s)
      | Some t \<Rightarrow> classify ''Error when calling sql QueryContext''
                  (classify ''sql error''
                     (QueryContext db (InTx (Tx t)) (Rebind db (Rebind db query)) args s)))"
  by (simp add: SQL_QueryContext_def SqlTx_QueryContext_def getQueryableFromContext_def Let_def
      split: option.splits)

lemma SQL_SelectContext_eq:
  "SQL_SelectContext db c query args s =
     (case txKey c of
        None \<Rightarrow> classify ''Error when calling sql SelectContext''
                  (SelectContext db Pool (Rebind db query) args s)
      | Some t \<Rightarrow> classify ''Error when calling sql SelectContext''
                  (classify ''sql error''
                     (SelectContext db (InTx (Tx t)) (Rebind db (Rebind db query)) args s)))"
  by (simp add: SQL_SelectContext_def SqlTx_SelectContext_def getQueryableFromContext_def Let_def
      split: option.splits)

lemma sentinel_preserved_either:
  "sentinel_preserved (snd (fst (f (underlying_conn c) (underlying_query db c query))))
     (snd (fst (case txKey c of
        None \<Rightarrow> classify msg (f Pool (Rebind db query))
      | Some t \<Rightarrow> classify msg (classify ''sql error''
                     (f (InTx (Tx t)) (Rebind db (Rebind db query)))))))"
  by (cases "txKey c")
     (simp_all add: underlying_conn_def underlying_query_def,
      (metis sentinel_preserved_once sentinel_preserved_twice prod.collapse)+)

lemma SQL_preserve:
  "sentinel_preserved
     (snd (fst (ExecContext db (underlying_conn c) (underlying_query db c query) args s)))
     (snd (fst (SQL_ExecContext db c query args s)))"
  "sentinel_preserved
     (snd (fst (GetContext db (underlying_conn c) (underlying_query db c query) args s)))
     (snd (fst (SQL_GetContext db c query args s)))"
  "sentinel_preserved
     (snd (fst (NamedExecContext db (underlying_conn c) (underlying_query db c query) arg s)))
     (snd (fst (SQL_NamedExecContext db c query arg s)))"
  "sentinel_preserved
     (snd (fst (QueryContext db (underlying_conn c) (underlying_query db c query) args s)))
     (snd (fst (SQL_QueryContext db c query args s)))"
  "sentinel_preserved
     (snd (fst (SelectContext db (underlying_conn c) (underlying_query db c query) args s)))
     (snd (fst (SQL_SelectContext db c query args s)))"
  unfolding SQL_ExecContext_eq SQL_GetContext_eq SQL_NamedExecContext_eq SQL_QueryContext_eq
    SQL_SelectContext_eq
  using sentinel_preserved_either [of "\<lambda>cn q. ExecContext db cn q args s" c db query]
    sentinel_preserved_either [of "\<lambda>cn q. GetContext db cn q args s" c db query]
    sentinel_preserved_either [of "\<lambda>cn q. NamedExecContext db cn q arg s" c db query]
    sentinel_preserved_either [of "\<lambda>cn q. QueryContext db cn q args s" c db query]
    sentinel_preserved_either [of "\<lambda>cn q. SelectContext db cn q args s" c db query]
  by simp_all


text \<open>
  C8.  For exec, get, named-exec, query and select, on the transaction handle (\<open>SqlTx\<close>)
  and on \<open>SQL\<close> with or without a transaction in the context: when the sqlx layer
  answers \<open>ErrNoRows\<close> the operation returns \<open>ErrNoRows\<close> itself; when it answers another
  error the operation returns it wrapped, with the same cause; when it answers no error
  the operation returns none.
\<close>

theorem C8_no_rows_sentinel_passes_through:
  "sentinel_preserved (snd (fst (ExecContext db (InTx (Tx q)) (Rebind db query) args s)))
     (snd (fst (SqlTx_ExecContext db q query args s))) \<and>
   sentinel_preserved (snd (fst (GetContext db (InTx (Tx q)) (Rebind db query) args s)))
     (snd (fst (SqlTx_GetContext db q query args s))) \<and>
   sentinel_preserved (snd (fst (NamedExecContext db (InTx (Tx q)) (Rebind db query) arg s)))
     (snd (fst (SqlTx_NamedExecContext db q query arg s))) \<and>
   sentinel_preserved (snd (fst (QueryContext db (InTx (Tx q)) (Rebind db query) args s)))
     (snd (fst (SqlTx_QueryContext db q query args s))) \<and>
   sentinel_preserved (snd (fst (SelectContext db (InTx (Tx q)) (Rebind db query) args s)))
     (snd (fst (SqlTx_SelectContext db q query args s))) \<and>
   sentinel_preserved
     (snd (fst (ExecContext db (underlying_conn c) (underlying_query db c query) args s)))
     (snd (fst (SQL_ExecContext db c query args s))) \<and>
   sentinel_preserved
     (snd (fst (GetContext db (underlying_conn c) (underlying_query db c query) args s)))
     (snd (fst (SQL_GetContext db c query args s))) \<and>
   sentinel_preserved
     (snd (fst (NamedExecContext db (underlying_conn c) (underlying_query db c query) arg s)))
     (snd (fst (SQL_NamedExecContext db c query arg s))) \<and>
   sentinel_preserved
     (snd (fst (QueryContext db (underlying_conn c) (underlying_query db c query) args s)))
     (snd (fst (SQL_QueryContext db c query args s))) \<and>
   sentinel_preserved
     (snd (fst (SelectContext db (underlying_conn c) (underlying_query db c query) args s)))
     (snd (fst (SQL_SelectContext db c query args s)))"
  by (intro conjI SqlTx_preserve SQL_preserve)

theorem C8_witness:
  "snd (fst (SQL_GetContext mysql (in_tx 0) (fst get_after_d) (snd get_after_d) db_abcd))
     = Some ErrNoRows \<and>
   snd (fst (SqlTx_GetContext mysql (SqlTx 0) (fst get_after_d) (snd get_after_d) db_abcd))
     = Some ErrNoRows \<and>
   (\<exists>e' msg. snd (fst (SQL_SelectContext mysql (in_tx 0) (fst get_after_d) [] db_abcd))
      = Some (Wrap e' msg) \<and> Cause e' = DriverErr ''sql: wrong number of arguments'')"
proof -
  have u: "snd (fst (GetContext mysql (InTx 0) (fst get_after_d) (snd get_after_d) db_abcd))
             = Some ErrNoRows"
    by (simp add: mysql_def get_after_d_def store_get_def store_select_def run_select_def
          db_abcd_def rows_abcd_def mk_row_def order_rows_def)
  have v: "snd (fst (SelectContext mysql (InTx 0) (fst get_after_d) [] db_abcd))
             = Some (DriverErr ''sql: wrong number of arguments'')"
    by (simp add: mysql_def get_after_d_def store_select_def run_select_def)
  have r: "Rebind mysql = (\<lambda>q. q)" "underlying_conn (in_tx 0) = InTx 0"
    "underlying_query mysql (in_tx 0) = (\<lambda>q. q)"
    by (auto simp: mysql_def in_tx_def underlying_conn_def underlying_query_def)
  from C8_no_rows_sentinel_passes_through
         [of mysql "SqlTx 0" "fst get_after_d" "snd get_after_d" db_abcd "VNull" "in_tx 0"]
       C8_no_rows_sentinel_passes_through
         [of mysql "SqlTx 0" "fst get_after_d" "[]" db_abcd "VNull" "in_tx 0"]
  show ?thesis
    by (simp add: r u v sentinel_preserved_def)
qed

section \<open>Properties of \<open>DeleteByTypeId\<close>\<close>

lemma DeleteByTypeId_eq:
  "DeleteByTypeId db c now tid s =
     ((case snd (fst (SQL_ExecContext db c SoftDelete [VInt now, VStr tid] s)) of
         None \<Rightarrow> None
       | Some x \<Rightarrow> if x = ErrNoRows then Some (RecordNotFoundError ''ObjectType'' tid) else Some x),
      snd (SQL_ExecContext db c SoftDelete [VInt now, VStr tid] s))"
  by (simp add: DeleteByTypeId_def split: prod.splits option.splits)

lemma SQL_ExecContext_err:
  "snd (fst (SQL_ExecContext db c query args s)) =
     (case snd (fst (ExecContext db (underlying_conn c) (underlying_query db c query) args s)) of
        None \<Rightarrow> None
      | Some e \<Rightarrow>
          if e = ErrNoRows then Some ErrNoRows
          else Some (case txKey c of
                        None \<Rightarrow> Wrap e ''Error when calling sql ExecContext''
                      | Some t \<Rightarrow> Wrap (Wrap e ''sql error'') ''Error when calling sql ExecContext''))"
  by (simp add: SQL_ExecContext_eq classify_eq underlying_conn_def underlying_query_def
      split: option.splits)

lemma SQL_ExecContext_store:
  "snd (SQL_ExecContext db c query args s) =
     snd (ExecContext db (underlying_conn c) (underlying_query db c query) args s)"
  by (simp add: SQL_ExecContext_eq classify_eq underlying_conn_def underlying_query_def
      split: option.splits)

lemma soft_delete_nothing:
  "\<forall>r \<in> set tbl. TypeId r = tid \<longrightarrow> DeletedAt r \<noteq> None \<Longrightarrow>
   map (soft_delete_row t tid) tbl = tbl \<and> filter (\<lambda>r. TypeId r = tid \<and> DeletedAt r = None) tbl = []"
  by (induction tbl) (auto simp: soft_delete_row_def)

lemma store_exec_soft_delete_nothing:
  assumes "\<forall>r \<in> set (objectType s). TypeId r = tid \<longrightarrow> DeletedAt r \<noteq> None"
  shows "store_exec SoftDelete [VInt now, VStr tid] s = ((\<lparr>LastInsertId = 0, RowsAffected = 0\<rparr>, None), s)"
  using soft_delete_nothing [OF assms, of now]
  by (simp add: store_exec_def run_soft_delete_def)

lemma store_exec_never_no_rows:
  "snd (fst (store_exec SoftDelete args s)) \<noteq> Some ErrNoRows"
  by (simp add: store_exec_def run_soft_delete_def split: list.splits sqlval.splits prod.splits)

text \<open>
  C10.  Whenever the exec beneath reports no error, \<open>DeleteByTypeId\<close> returns nil,
  whatever the number of rows affected; it returns the not-found error exactly when the
  exec beneath answers the no-rows sentinel.  On the store, soft-deleting a type that has
  no live row affects zero rows, changes nothing and returns nil, and the statement
  never answers the sentinel.
\<close>

theorem C10_delete_of_absent_type_succeeds:
  "(snd (fst (ExecContext db (underlying_conn c) (underlying_query db c SoftDelete)
       [VInt now, VStr tid] s)) = None
      \<longrightarrow> fst (DeleteByTypeId db c now tid s) = None) \<and>
   (fst (DeleteByTypeId db c now tid s) = Some (RecordNotFoundError ''ObjectType'' tid)
      \<longleftrightarrow> snd (fst (ExecContext db (underlying_conn c) (underlying_query db c SoftDelete)
             [VInt now, VStr tid] s)) = Some ErrNoRows) \<and>
   ((\<forall>r \<in> set (objectType st). TypeId r = tid \<longrightarrow> DeletedAt r \<noteq> None)
      \<longrightarrow> RowsAffected (fst (fst (ExecContext mysql (underlying_conn c)
               (underlying_query mysql c SoftDelete) [VInt now, VStr tid] st))) = 0
          \<and> DeleteByTypeId mysql c now tid st = (None, st)) \<and>
   snd (fst (ExecContext mysql (underlying_conn c) (underlying_query mysql c SoftDelete) args st))
     \<noteq> Some ErrNoRows"
proof (intro conjI impI)
  assume "snd (fst (ExecContext db (underlying_conn c) (underlying_query db c SoftDelete)
       [VInt now, VStr tid] s)) = None"
  then show "fst (DeleteByTypeId db c now tid s) = None"
    by (simp add: DeleteByTypeId_eq SQL_ExecContext_err)
next
  show "fst (DeleteByTypeId db c now tid s) = Some (RecordNotFoundError ''ObjectType'' tid)
      \<longleftrightarrow> snd (fst (ExecContext db (underlying_conn c) (underlying_query db c SoftDelete)
             [VInt now, VStr tid] s)) = Some ErrNoRows"
    by (simp add: DeleteByTypeId_eq SQL_ExecContext_err split: option.splits)
next
  have q: "underlying_query mysql c SoftDelete = SoftDelete"
    by (simp add: underlying_query_def mysql_def split: option.splits)
  have e: "ExecContext mysql (underlying_conn c) = store_exec"
    by (simp add: mysql_def)
  show "snd (fst (ExecContext mysql (underlying_conn c) (underlying_query mysql c SoftDelete) args st))
     \<noteq> Some ErrNoRows"
    by (simp add: q e store_exec_never_no_rows)
  assume a: "\<forall>r \<in> set (objectType st). TypeId r = tid \<longrightarrow> DeletedAt r \<noteq> None"
  show "RowsAffected (fst (fst (ExecContext mysql (underlying_conn c)
               (underlying_query mysql c SoftDelete) [VInt now, VStr tid] st))) = 0"
    by (simp add: q e store_exec_soft_delete_nothing [OF a])
  show "DeleteByTypeId mysql c now tid st = (None, st)"
    by (simp add: DeleteByTypeId_eq SQL_ExecContext_err SQL_ExecContext_store q e
          store_exec_soft_delete_nothing [OF a])
qed

theorem C10_witness:
  "fst (DeleteByTypeId mysql no_tx 99 ''zebra'' db_abcd) = None \<and>
   RowsAffected (fst (fst (ExecContext mysql Pool SoftDelete [VInt 99, VStr ''zebra''] db_abcd))) = 0 \<and>
   DeleteByTypeId mysql no_tx 99 ''zebra'' db_abcd = (None, db_abcd) \<and>
   fst (DeleteByTypeId mysql no_tx 99 ''zebra'' db_abcd)
     \<noteq> Some (RecordNotFoundError ''ObjectType'' ''zebra'')"
proof -
  have a: "\<forall>r \<in> set (objectType db_abcd). TypeId r = ''zebra'' \<longrightarrow> DeletedAt r \<noteq> None"
    by (simp add: db_abcd_def rows_abcd_def mk_row_def)
  have r: "underlying_conn no_tx = Pool" "underlying_query mysql no_tx SoftDelete = SoftDelete"
    by (simp_all add: underlying_conn_def underlying_query_def no_tx_def mysql_def)
  have n: "snd (fst (ExecContext mysql Pool SoftDelete [VInt 99, VStr ''zebra''] db_abcd)) = None"
    by (simp add: mysql_def store_exec_def run_soft_delete_def)
  from C10_delete_of_absent_type_succeeds
         [of mysql no_tx 99 "''zebra''" db_abcd db_abcd "[VInt 99, VStr ''zebra'']"]
  show ?thesis
    by (simp add: r n a)
qed

section \<open>Properties of \<open>List\<close>\<close>

lemma List_text_render: "render_query (fst (List_build p)) = List_text p"
  by (auto simp: List_build_def List_text_def List_search_def List_after_def List_before_def
        List_order_def Let_def split: option.splits)

lemma List_after_set:
  "AfterId p \<noteq> [] \<Longrightarrow>
   List_after p (cs, rs) = (cs @ [after_cond p], rs @ after_args p)"
  by (cases "SortOrder p")
     (simp_all add: List_after_def after_cond_def after_args_def after_cmp_def split: option.splits)

lemma List_after_unset: "AfterId p = [] \<Longrightarrow> List_after p qr = qr"
  by (cases qr) (simp add: List_after_def)

lemma after_cond_meaning:
  "cond_holds (after_cond p) (after_args p) r = spec_after p r"
  by (auto simp: after_cond_def after_args_def spec_after_def split: option.splits)

lemma run_select_driver_error:
  "run_select tbl cs ord args = Inl e \<Longrightarrow> \<exists>m. e = DriverErr m"
  by (auto simp: run_select_def split: if_splits sqlval.splits)


lemma List_build_shape:
  "\<exists>cs args. List_build p =
     (Select cs (if SortBy p \<noteq> ''objectType'' then OrderBy2 (SortBy p) (SortOrder p)
                 else OrderBy1 (SortOrder p)),
      args @ [VInt (Limit p)])"
  by (cases "List_before p (List_after p (List_search p ([], [])))")
     (simp add: List_build_def List_order_def)

lemma List_mysql:
  assumes "List_build p = (Select cs ord, args)"
  shows "List mysql c p s =
     (case run_select (objectType s) cs ord args of
        Inl e \<Rightarrow>
          (([], Some (Wrap (case txKey c of
                              None \<Rightarrow> Wrap e ''Error when calling sql SelectContext''
                            | Some t \<Rightarrow> Wrap (Wrap e ''sql error'')
                                         ''Error when calling sql SelectContext'')
                       ''Unable to get object types from mysql'')), s)
      | Inr rows \<Rightarrow> ((rows, None), s))"
proof (cases "run_select (objectType s) cs ord args")
  case (Inl e)
  then obtain m where "e = DriverErr m"
    using run_select_driver_error by blast
  with Inl show ?thesis
    by (simp add: List_def assms SQL_SelectContext_def SqlTx_SelectContext_def
          getQueryableFromContext_def classify_def mysql_def store_select_def
        split: option.splits)
next
  case (Inr rows)
  then show ?thesis
    by (simp add: List_def assms SQL_SelectContext_def SqlTx_SelectContext_def
          getQueryableFromContext_def classify_def mysql_def store_select_def
        split: option.splits)
qed



lemma List_forward_only:
  assumes a: "AfterId p \<noteq> []" and q: "Query p = []" and b: "BeforeId p = []"
    and k: "known_column (SortBy p)" and l: "0 \<le> Limit p"
  shows "List mysql c p s =
     ((take (nat (Limit p))
         (order_rows (OrderBy2 (SortBy p) (SortOrder p))
            (filter (\<lambda>r. DeletedAt r = None \<and> spec_after p r) (objectType s))), None), s)"
proof -
  from k have o: "SortBy p \<noteq> ''objectType''"
    by (auto simp: known_column_def)
  have bld: "List_build p =
      (Select [after_cond p] (OrderBy2 (SortBy p) (SortOrder p)), after_args p @ [VInt (Limit p)])"
    by (simp add: List_build_def List_search_def q List_after_set [OF a] List_before_def b
          List_order_def o)
  have n: "length (after_args p) = placeholders (after_cond p)"
    by (simp add: after_args_def after_cond_def split: option.splits)
  have ck: "cond_columns_known (after_cond p)"
    by (simp add: after_cond_def k split: option.splits)
  from l have l': "\<not> Limit p < 0"
    by simp
  show ?thesis
    by (simp add: List_mysql [OF bld] run_select_def n ck k l' after_cond_meaning)
qed

lemma conds_hold_bound_args:
  "conds_hold cs args r = list_all (\<lambda>(c, a). cond_holds c a r) (bound_args cs args)"
  by (induction cs arbitrary: args) simp_all






lemma List_before_unvalued:
  "BeforeId p \<noteq> [] \<Longrightarrow> BeforeValue p = None \<Longrightarrow>
   List_before p (cs, rs) =
     (cs @ [IdCmp (case SortOrder p of SortOrderAsc \<Rightarrow> Lt | SortOrderDesc \<Rightarrow> Gt)],
      rs @ [VStr (AfterId p)])"
  by (cases "SortOrder p") (simp_all add: List_before_def)

lemma List_before_valued:
  "BeforeId p \<noteq> [] \<Longrightarrow> BeforeValue p = Some v \<Longrightarrow>
   List_before p (cs, rs) =
     (cs @ [Keyset (SortBy p) (case SortOrder p of SortOrderAsc \<Rightarrow> Lt | SortOrderDesc \<Rightarrow> Gt)],
      rs @ [v, VStr (BeforeId p), v])"
  by (cases "SortOrder p") (simp_all add: List_before_def)

lemma List_build_counts:
  "List_build p = (Select cs ord, args) \<Longrightarrow>
   length args = sum_list (map placeholders cs) + 1 + (if Query p \<noteq> [] then 1 else 0)"
  by (auto simp: List_build_def List_search_def List_after_def List_before_def List_order_def
        Let_def split: option.splits if_splits)

lemma List_search_refused:
  assumes "Query p \<noteq> []"
  shows "fst (List mysql c p s) =
     ([], Some (Wrap (case txKey c of
                        None \<Rightarrow> Wrap (DriverErr ''sql: wrong number of arguments'')
                                  ''Error when calling sql SelectContext''
                      | Some t \<Rightarrow> Wrap (Wrap (DriverErr ''sql: wrong number of arguments'')
                                     ''sql error'') ''Error when calling sql SelectContext'')
                  ''Unable to get object types from mysql''))"
proof -
  obtain cs ord args where b: "List_build p = (Select cs ord, args)"
    using List_build_shape [of p] by blast
  from List_build_counts [OF b] assms
  have "length args \<noteq> sum_list (map placeholders cs) + 1"
    by simp
  then show ?thesis
    by (simp add: List_mysql [OF b] run_select_def)
qed

text \<open>
  C3 (the code departs from it).  The claim: the backward cursor mirrors the forward one
  with the comparison inverted, and without a \<open>beforeValue\<close> it compares the identifier
  with \<open>beforeId\<close>.  On the code the branch without a \<open>beforeValue\<close> binds \<open>AfterId\<close>:
  for \<open>beforeId = c\<close> alone the argument is the empty \<open>AfterId\<close> and no row is returned,
  where binding \<open>c\<close> returns \<open>a, b\<close>.  With \<open>beforeValue = 2\<close> the code does return
  \<open>a, b\<close> in ascending order.
\<close>

theorem C3_backward_cursor_without_value_binds_AfterId:
  "List_build before_c = (Select [IdCmp Lt] (OrderBy2 ''createdAt'' SortOrderAsc), [VStr [], VInt 10]) \<and>
   fst (List mysql no_tx before_c db_abcd) = ([], None) \<and>
   run_select rows_abcd [IdCmp Lt] (OrderBy2 ''createdAt'' SortOrderAsc) [VStr ''c'', VInt 10]
     = Inr [mk_row 1 ''a'' 1, mk_row 2 ''b'' 1] \<and>
   List_build before_c2
     = (Select [Keyset ''createdAt'' Lt] (OrderBy2 ''createdAt'' SortOrderAsc),
        [VInt 2, VStr ''c'', VInt 2, VInt 10]) \<and>
   fst (List mysql no_tx before_c2 db_abcd) = ([mk_row 1 ''a'' 1, mk_row 2 ''b'' 1], None)"
  by (intro conjI; code_simp)

text \<open>
  C4 (the code departs from it).  The claim: a non-empty free-text query adds one
  \<^verbatim>\<open>LIKE\<close> predicate with its argument aligned to its placeholder, so that with a
  forward cursor only rows matching both are returned.  On the code the one placeholder
  receives two arguments: for the query \<open>c\<close> after \<open>(1, a)\<close> the statement has five
  placeholders and six arguments and is refused, where the aligned statement returns the
  row \<open>c\<close>.
\<close>

theorem C4_search_term_bound_twice:
  "List_build search_c_after_a1
     = (Select [Like, Keyset ''createdAt'' Gt] (OrderBy2 ''createdAt'' SortOrderAsc),
        [VStr ''%c%'', VStr ''%c%'', VInt 1, VStr ''a'', VInt 1, VInt 10]) \<and>
   fst (List mysql no_tx search_c_after_a1 db_abcd)
     = ([], Some (Wrap (Wrap (DriverErr ''sql: wrong number of arguments'')
                     ''Error when calling sql SelectContext'')
                  ''Unable to get object types from mysql'')) \<and>
   run_select rows_abcd [Like, Keyset ''createdAt'' Gt] (OrderBy2 ''createdAt'' SortOrderAsc)
       [VStr ''%c%'', VInt 1, VStr ''a'', VInt 1, VInt 10]
     = Inr [mk_row 3 ''c'' 2]"
  by (intro conjI; code_simp)




text \<open>
  C6 (the code departs from it).  The claim: for every request with \<open>afterId\<close> set and
  \<open>afterValue\<close> present, \<open>List\<close> adds the predicate
  \<open>sortField \<rhd> afterValue OR (sortField = afterValue AND id \<rhd> afterId)\<close>.  The fragment
  is added and its own three arguments are appended in the order of its placeholders,
  and without a free-text query the example returns \<open>b, c, d\<close>.  With a free-text query
  the search term has been appended twice for one placeholder, so by position the
  placeholders of the cursor receive the second search term, \<open>afterValue\<close> and \<open>afterId\<close>:
  for the query \<open>b\<close> after \<open>(1, a)\<close> the row \<open>b\<close> satisfies the predicate of the claim
  but not the fragment with the arguments it is given, and the statement, with one
  argument too many, is refused.
\<close>

theorem C6_cursor_arguments_shifted_by_search_term:
  "List_build search_b_after_a1
     = (Select [Like, Keyset ''createdAt'' Gt] (OrderBy2 ''createdAt'' SortOrderAsc),
        [VStr ''%b%'', VStr ''%b%'', VInt 1, VStr ''a'', VInt 1, VInt 10]) \<and>
   bound_args [Like, Keyset ''createdAt'' Gt]
       [VStr ''%b%'', VStr ''%b%'', VInt 1, VStr ''a'', VInt 1, VInt 10]
     = [(Like, [VStr ''%b%'']), (Keyset ''createdAt'' Gt, [VStr ''%b%'', VInt 1, VStr ''a''])] \<and>
   spec_after search_b_after_a1 (mk_row 2 ''b'' 1) \<and>
   \<not> cond_holds (Keyset ''createdAt'' Gt) [VStr ''%b%'', VInt 1, VStr ''a''] (mk_row 2 ''b'' 1) \<and>
   fst (List mysql no_tx search_b_after_a1 db_abcd)
     = ([], Some (Wrap (Wrap (DriverErr ''sql: wrong number of arguments'')
                     ''Error when calling sql SelectContext'')
                  ''Unable to get object types from mysql'')) \<and>
   run_select rows_abcd [Like, Keyset ''createdAt'' Gt] (OrderBy2 ''createdAt'' SortOrderAsc)
       [VStr ''%b%'', VInt 1, VStr ''a'', VInt 1, VInt 10]
     = Inr [mk_row 2 ''b'' 1] \<and>
   List_build after_a1
     = (Select [Keyset ''createdAt'' Gt] (OrderBy2 ''createdAt'' SortOrderAsc),
        [VInt 1, VStr ''a'', VInt 1, VInt 10]) \<and>
   fst (List mysql no_tx after_a1 db_abcd)
     = ([mk_row 2 ''b'' 1, mk_row 3 ''c'' 2, mk_row 4 ''d'' 3], None)"
  by (intro conjI; code_simp)

end
